theory Spec2Isabelle
  imports Main "HOL-Library.Word"
begin

unbundle bit_operations_syntax

section \<open>Build configuration\<close>

text \<open>
  \<^verbatim>\<open>platform.h\<close> is preprocessor-driven: which text of a function is compiled depends on
  the symbols the compiler predefines. A build configuration records the symbols that
  the functions modelled here test, and the values of the compiler-supplied macros and
  type properties they read. Whether a symbol is defined is a \<open>bool\<close>; the three byte-order
  macros carry the integer the compiler gives them.
\<close>

record build =
  WIN32 :: bool                  \<comment> \<open>\<^verbatim>\<open>_WIN32\<close>\<close>
  MSC_VER :: bool                \<comment> \<open>\<^verbatim>\<open>_MSC_VER\<close>\<close>
  GNUC :: bool                   \<comment> \<open>\<^verbatim>\<open>__GNUC__\<close>\<close>
  NDEBUG :: bool                 \<comment> \<open>\<^verbatim>\<open>NDEBUG\<close>: \<^verbatim>\<open>assert\<close> expands to nothing\<close>
  M_X64 :: bool                  \<comment> \<open>\<^verbatim>\<open>_M_X64\<close>\<close>
  M_IX86 :: bool                 \<comment> \<open>\<^verbatim>\<open>_M_IX86\<close>\<close>
  M_AMD64 :: bool                \<comment> \<open>\<^verbatim>\<open>_M_AMD64\<close>\<close>
  i386 :: bool                   \<comment> \<open>\<^verbatim>\<open>__i386__\<close>\<close>
  x86_64 :: bool                 \<comment> \<open>\<^verbatim>\<open>__x86_64__\<close>\<close>
  ORDER_LITTLE_ENDIAN :: int     \<comment> \<open>\<^verbatim>\<open>__ORDER_LITTLE_ENDIAN__\<close>\<close>
  ORDER_BIG_ENDIAN :: int        \<comment> \<open>\<^verbatim>\<open>__ORDER_BIG_ENDIAN__\<close>\<close>
  BYTE_ORDER :: int              \<comment> \<open>\<^verbatim>\<open>__BYTE_ORDER__\<close>\<close>
  alignof_voidp :: nat           \<comment> \<open>\<^verbatim>\<open>alignof(void*)\<close>\<close>
  size_t_bits :: nat             \<comment> \<open>width of \<^verbatim>\<open>size_t\<close>\<close>
  asm_operand1_ebx :: bool       \<comment> \<open>the compiler puts operand 1 of the 32-bit \<^verbatim>\<open>asm\<close> in \<open>ebx\<close>\<close>

section \<open>Endianness\<close>

text \<open>
  \<^verbatim>\<open>enum class endian\<close> has three enumerators; \<open>native\<close> repeats the value of one of the
  others (or of neither). Each enumerator is modelled by its underlying value, which is
  what \<^verbatim>\<open>==\<close> on the enumeration compares.
\<close>

definition endian_little :: "build \<Rightarrow> int" where
  "endian_little b = (if WIN32 b then 0 else ORDER_LITTLE_ENDIAN b)"

definition endian_big :: "build \<Rightarrow> int" where
  "endian_big b = (if WIN32 b then 1 else ORDER_BIG_ENDIAN b)"

definition endian_native :: "build \<Rightarrow> int" where
  "endian_native b = (if WIN32 b then endian_little b else BYTE_ORDER b)"

definition littleendian :: "build \<Rightarrow> bool" where
  "littleendian b = (endian_native b = endian_little b)"

definition bigendian :: "build \<Rightarrow> bool" where
  "bigendian b = (endian_native b = endian_big b)"

section \<open>The processor identification instruction\<close>

type_synonym u32 = "32 word"

record regs =
  eax :: u32
  ebx :: u32
  ecx :: u32
  edx :: u32

text \<open>
  The machine the queries run on. \<open>hw\<close> is the processor's capability table: what the
  \<^verbatim>\<open>cpuid\<close> instruction leaves in the four registers for a leaf (in \<open>eax\<close>) and a sub-leaf
  (in \<open>ecx\<close>). \<open>rf\<close> is the register file, whose contents on entry to a function are
  whatever the caller left there. \<open>issued\<close> logs every \<^verbatim>\<open>cpuid\<close> instruction executed, with
  its leaf and sub-leaf, oldest first; it is there to state which instruction a query
  issues and is read by no modelled function.
\<close>

record machine =
  hw :: "u32 \<Rightarrow> u32 \<Rightarrow> regs"
  rf :: regs
  issued :: "(u32 \<times> u32) list"

definition exec_cpuid :: "machine \<Rightarrow> machine" where
  "exec_cpuid m =
     m\<lparr>rf := hw m (eax (rf m)) (ecx (rf m)),
       issued := issued m @ [(eax (rf m), ecx (rf m))]\<rparr>"

text \<open>The input constraints \<^verbatim>\<open>"0" (infoType), "2" (extra)\<close>: leaf in \<open>eax\<close>, sub-leaf in \<open>ecx\<close>.\<close>

definition load_inputs :: "machine \<Rightarrow> u32 \<Rightarrow> u32 \<Rightarrow> machine" where
  "load_inputs m infoType extra = m\<lparr>rf := (rf m)\<lparr>eax := infoType, ecx := extra\<rparr>\<rparr>"

text \<open>\<^verbatim>\<open>__cpuidex(info, infoType, extra)\<close>, the MSVC intrinsic.\<close>

definition cpuidex :: "machine \<Rightarrow> u32 \<Rightarrow> u32 \<Rightarrow> u32 list \<times> machine" where
  "cpuidex m infoType extra =
     (let m' = exec_cpuid (load_inputs m infoType extra)
      in ([eax (rf m'), ebx (rf m'), ecx (rf m'), edx (rf m')], m'))"

text \<open>
  The x86-64 \<^verbatim>\<open>asm\<close> statement: one \<^verbatim>\<open>cpuid\<close>, outputs \<^verbatim>\<open>"=a"\<close>, \<^verbatim>\<open>"=b"\<close>, \<^verbatim>\<open>"=c"\<close>, \<^verbatim>\<open>"=d"\<close>
  into \<^verbatim>\<open>info[0..3]\<close>.
\<close>

definition asm_cpuid_x86_64 :: "machine \<Rightarrow> u32 \<Rightarrow> u32 \<Rightarrow> u32 list \<times> machine" where
  "asm_cpuid_x86_64 m infoType extra =
     (let m' = exec_cpuid (load_inputs m infoType extra)
      in ([eax (rf m'), ebx (rf m'), ecx (rf m'), edx (rf m')], m'))"

text \<open>
  The 32-bit \<^verbatim>\<open>asm\<close> statement is written to keep \<open>ebx\<close> (the PIC register): it copies
  \<open>ebx\<close> into operand 1, executes \<^verbatim>\<open>cpuid\<close>, and exchanges \<open>ebx\<close> with operand 1, so that
  operand 1 (\<^verbatim>\<open>info[1]\<close>) holds what \<^verbatim>\<open>cpuid\<close> left in \<open>ebx\<close>. Operand 1 has the constraint
  \<^verbatim>\<open>"=r"\<close>: the compiler picks its register. When it picks another register than \<open>ebx\<close>,
  \<open>ebx\<close> has its old value again after the statement. When it picks \<open>ebx\<close> itself, the
  copy and the exchange move \<open>ebx\<close> onto itself and \<open>ebx\<close> keeps what \<^verbatim>\<open>cpuid\<close> left there.
\<close>

definition asm_cpuid_i386 :: "build \<Rightarrow> machine \<Rightarrow> u32 \<Rightarrow> u32 \<Rightarrow> u32 list \<times> machine" where
  "asm_cpuid_i386 b m infoType extra =
     (let m0 = load_inputs m infoType extra
      in if asm_operand1_ebx b then
           (let m1 = exec_cpuid m0
            in ([eax (rf m1), ebx (rf m1), ecx (rf m1), edx (rf m1)], m1))
         else
           (let op1 = ebx (rf m0);
                m1 = exec_cpuid m0;
                op1' = ebx (rf m1);
                m2 = m1\<lparr>rf := (rf m1)\<lparr>ebx := op1\<rparr>\<rparr>
            in ([eax (rf m2), op1', ecx (rf m2), edx (rf m2)], m2)))"

definition is_x86 :: "build \<Rightarrow> bool" where
  "is_x86 b = (M_X64 b \<or> M_IX86 b \<or> M_AMD64 b \<or> i386 b \<or> x86_64 b)"

text \<open>
  \<^verbatim>\<open>cpuid(info, infoType, extra)\<close> overwrites all four slots of the caller's array; the
  model returns the array it leaves behind, and the machine after the call.
\<close>

definition cpuid :: "build \<Rightarrow> machine \<Rightarrow> u32 \<Rightarrow> u32 \<Rightarrow> u32 list \<times> machine" where
  "cpuid b m infoType extra =
     (if is_x86 b then
        (if MSC_VER b then cpuidex m infoType extra
         else if x86_64 b then asm_cpuid_x86_64 m infoType extra
         else asm_cpuid_i386 b m infoType extra)
      else ([0, 0, 0, 0], m))"

definition cpu_has_sse2 :: "build \<Rightarrow> machine \<Rightarrow> bool \<times> machine" where
  "cpu_has_sse2 b m = (let (i, m') = cpuid b m 1 0 in ((i ! 3) AND (push_bit 26 1) \<noteq> 0, m'))"

definition cpu_has_sse3 :: "build \<Rightarrow> machine \<Rightarrow> bool \<times> machine" where
  "cpu_has_sse3 b m = (let (i, m') = cpuid b m 1 0 in ((i ! 2) AND (push_bit 0 1) \<noteq> 0, m'))"

definition cpu_has_ssse3 :: "build \<Rightarrow> machine \<Rightarrow> bool \<times> machine" where
  "cpu_has_ssse3 b m = (let (i, m') = cpuid b m 1 0 in ((i ! 2) AND (push_bit 9 1) \<noteq> 0, m'))"

definition cpu_has_fma :: "build \<Rightarrow> machine \<Rightarrow> bool \<times> machine" where
  "cpu_has_fma b m = (let (i, m') = cpuid b m 1 0 in ((i ! 2) AND (push_bit 12 1) \<noteq> 0, m'))"

definition cpu_has_sse41 :: "build \<Rightarrow> machine \<Rightarrow> bool \<times> machine" where
  "cpu_has_sse41 b m = (let (i, m') = cpuid b m 1 0 in ((i ! 2) AND (push_bit 19 1) \<noteq> 0, m'))"

definition cpu_has_sse42 :: "build \<Rightarrow> machine \<Rightarrow> bool \<times> machine" where
  "cpu_has_sse42 b m = (let (i, m') = cpuid b m 1 0 in ((i ! 2) AND (push_bit 20 1) \<noteq> 0, m'))"

definition cpu_has_popcnt :: "build \<Rightarrow> machine \<Rightarrow> bool \<times> machine" where
  "cpu_has_popcnt b m = (let (i, m') = cpuid b m 1 0 in ((i ! 2) AND (push_bit 23 1) \<noteq> 0, m'))"

definition cpu_has_avx :: "build \<Rightarrow> machine \<Rightarrow> bool \<times> machine" where
  "cpu_has_avx b m = (let (i, m') = cpuid b m 1 0 in ((i ! 2) AND (push_bit 28 1) \<noteq> 0, m'))"

definition cpu_has_f16c :: "build \<Rightarrow> machine \<Rightarrow> bool \<times> machine" where
  "cpu_has_f16c b m = (let (i, m') = cpuid b m 1 0 in ((i ! 2) AND (push_bit 29 1) \<noteq> 0, m'))"

definition cpu_has_rdrand :: "build \<Rightarrow> machine \<Rightarrow> bool \<times> machine" where
  "cpu_has_rdrand b m = (let (i, m') = cpuid b m 1 0 in ((i ! 2) AND (push_bit 30 1) \<noteq> 0, m'))"

definition cpu_has_avx2 :: "build \<Rightarrow> machine \<Rightarrow> bool \<times> machine" where
  "cpu_has_avx2 b m = (let (i, m') = cpuid b m 7 0 in ((i ! 1) AND (push_bit 5 1) \<noteq> 0, m'))"

definition cpu_has_avx512f :: "build \<Rightarrow> machine \<Rightarrow> bool \<times> machine" where
  "cpu_has_avx512f b m = (let (i, m') = cpuid b m 7 0 in ((i ! 1) AND (push_bit 16 1) \<noteq> 0, m'))"

definition cpu_has_avx512dq :: "build \<Rightarrow> machine \<Rightarrow> bool \<times> machine" where
  "cpu_has_avx512dq b m = (let (i, m') = cpuid b m 7 0 in ((i ! 1) AND (push_bit 17 1) \<noteq> 0, m'))"

definition cpu_has_avx512ifma :: "build \<Rightarrow> machine \<Rightarrow> bool \<times> machine" where
  "cpu_has_avx512ifma b m = (let (i, m') = cpuid b m 7 0 in ((i ! 1) AND (push_bit 21 1) \<noteq> 0, m'))"

definition cpu_has_avx512pf :: "build \<Rightarrow> machine \<Rightarrow> bool \<times> machine" where
  "cpu_has_avx512pf b m = (let (i, m') = cpuid b m 7 0 in ((i ! 1) AND (push_bit 26 1) \<noteq> 0, m'))"

definition cpu_has_avx512er :: "build \<Rightarrow> machine \<Rightarrow> bool \<times> machine" where
  "cpu_has_avx512er b m = (False, m)"

definition cpu_has_avx512cd :: "build \<Rightarrow> machine \<Rightarrow> bool \<times> machine" where
  "cpu_has_avx512cd b m = (let (i, m') = cpuid b m 7 0 in ((i ! 1) AND (push_bit 28 1) \<noteq> 0, m'))"

definition cpu_has_avx512bw :: "build \<Rightarrow> machine \<Rightarrow> bool \<times> machine" where
  "cpu_has_avx512bw b m = (let (i, m') = cpuid b m 7 0 in ((i ! 1) AND (push_bit 30 1) \<noteq> 0, m'))"

definition cpu_has_avx512vl :: "build \<Rightarrow> machine \<Rightarrow> bool \<times> machine" where
  "cpu_has_avx512vl b m = (let (i, m') = cpuid b m 7 0 in ((i ! 1) AND 0x80000000 \<noteq> 0, m'))"

text \<open>
  The nineteen queries under one name, to speak about any of them and about sequences
  of calls. \<open>cpu_has\<close> only dispatches to the function of the source.
\<close>

datatype feature =
  SSE2 | SSE3 | SSSE3 | FMA | SSE41 | SSE42 | POPCNT | AVX | F16C | RDRAND
  | AVX2 | AVX512F | AVX512DQ | AVX512IFMA | AVX512PF | AVX512ER | AVX512CD | AVX512BW
  | AVX512VL

fun cpu_has :: "feature \<Rightarrow> build \<Rightarrow> machine \<Rightarrow> bool \<times> machine" where
  "cpu_has SSE2 = cpu_has_sse2"
| "cpu_has SSE3 = cpu_has_sse3"
| "cpu_has SSSE3 = cpu_has_ssse3"
| "cpu_has FMA = cpu_has_fma"
| "cpu_has SSE41 = cpu_has_sse41"
| "cpu_has SSE42 = cpu_has_sse42"
| "cpu_has POPCNT = cpu_has_popcnt"
| "cpu_has AVX = cpu_has_avx"
| "cpu_has F16C = cpu_has_f16c"
| "cpu_has RDRAND = cpu_has_rdrand"
| "cpu_has AVX2 = cpu_has_avx2"
| "cpu_has AVX512F = cpu_has_avx512f"
| "cpu_has AVX512DQ = cpu_has_avx512dq"
| "cpu_has AVX512IFMA = cpu_has_avx512ifma"
| "cpu_has AVX512PF = cpu_has_avx512pf"
| "cpu_has AVX512ER = cpu_has_avx512er"
| "cpu_has AVX512CD = cpu_has_avx512cd"
| "cpu_has AVX512BW = cpu_has_avx512bw"
| "cpu_has AVX512VL = cpu_has_avx512vl"

text \<open>Calling a list of queries one after the other, results discarded.\<close>

fun run_queries :: "feature list \<Rightarrow> build \<Rightarrow> machine \<Rightarrow> machine" where
  "run_queries [] b m = m"
| "run_queries (f # fs) b m = run_queries fs b (snd (cpu_has f b m))"

subsection \<open>The table the specification gives for the queries\<close>

text \<open>
  What the specification says each query reads: the leaf it selects, the output register
  and the bit in it. The leaf and the register are the specification's words; it names the
  bit for \<open>sse2\<close> (26) and \<open>avx512vl\<close> (31) and says of the others only that there is one,
  so those bit numbers are the x86 ones the source's masks spell. \<open>AVX512ER\<close> issues no
  instruction and has no entry of its own (its row is never used).
\<close>

fun claimed_leaf :: "feature \<Rightarrow> u32" where
  "claimed_leaf SSE2 = 1" | "claimed_leaf SSE3 = 1" | "claimed_leaf SSSE3 = 1"
| "claimed_leaf FMA = 1" | "claimed_leaf SSE41 = 1" | "claimed_leaf SSE42 = 1"
| "claimed_leaf POPCNT = 1" | "claimed_leaf AVX = 1" | "claimed_leaf F16C = 1"
| "claimed_leaf RDRAND = 1"
| "claimed_leaf _ = 7"

fun claimed_register :: "feature \<Rightarrow> regs \<Rightarrow> u32" where
  "claimed_register SSE2 = edx"
| "claimed_register SSE3 = ecx" | "claimed_register SSSE3 = ecx"
| "claimed_register FMA = ecx" | "claimed_register SSE41 = ecx"
| "claimed_register SSE42 = ecx" | "claimed_register POPCNT = ecx"
| "claimed_register AVX = ecx" | "claimed_register F16C = ecx"
| "claimed_register RDRAND = ecx"
| "claimed_register _ = ebx"

fun claimed_bit :: "feature \<Rightarrow> nat" where
  "claimed_bit SSE2 = 26" | "claimed_bit SSE3 = 0" | "claimed_bit SSSE3 = 9"
| "claimed_bit FMA = 12" | "claimed_bit SSE41 = 19" | "claimed_bit SSE42 = 20"
| "claimed_bit POPCNT = 23" | "claimed_bit AVX = 28" | "claimed_bit F16C = 29"
| "claimed_bit RDRAND = 30" | "claimed_bit AVX2 = 5" | "claimed_bit AVX512F = 16"
| "claimed_bit AVX512DQ = 17" | "claimed_bit AVX512IFMA = 21" | "claimed_bit AVX512PF = 26"
| "claimed_bit AVX512ER = 27" | "claimed_bit AVX512CD = 28" | "claimed_bit AVX512BW = 30"
| "claimed_bit AVX512VL = 31"

definition claimed_result :: "feature \<Rightarrow> (u32 \<Rightarrow> u32 \<Rightarrow> regs) \<Rightarrow> bool" where
  "claimed_result f table = bit (claimed_register f (table (claimed_leaf f) 0)) (claimed_bit f)"

section \<open>Stack allocation: \<^verbatim>\<open>OIIO_ALLOCA\<close>\<close>

text \<open>Conversion of an integer to \<^verbatim>\<open>size_t\<close>: reduction modulo \<open>2 ^ size_t_bits\<close>.\<close>

definition to_size_t :: "build \<Rightarrow> int \<Rightarrow> nat" where
  "to_size_t b i = nat (i mod 2 ^ size_t_bits b)"

text \<open>
  \<^verbatim>\<open>OIIO_ALLOCA(type, size)\<close> is a comma expression: \<^verbatim>\<open>assert(size < (1<<20))\<close>, then
  \<^verbatim>\<open>(size) != 0 ? (type*)alloca((size) * sizeof(type)) : nullptr\<close>. Its outcome is the failed
  assertion, the null pointer, or the block the stack primitive gives for a byte count;
  the primitive is \<^verbatim>\<open>__builtin_alloca\<close> under \<^verbatim>\<open>__GNUC__\<close> and \<^verbatim>\<open>alloca\<close> otherwise. With
  \<^verbatim>\<open>NDEBUG\<close> the assertion expands to nothing.

  \<open>sz\<close> is the value of the macro's \<^verbatim>\<open>size\<close>, an element count, and \<open>sizeof_type\<close> is
  \<^verbatim>\<open>sizeof(type)\<close>. The count is an integer: the macro takes an argument of any integer
  type, and a negative one passes the assertion. The product is formed in \<^verbatim>\<open>size_t\<close> and
  wraps. The macro substitutes the text of its argument, three times and without
  parentheses inside \<^verbatim>\<open>assert\<close>; the model takes the argument by value, so an argument with
  side effects, or one whose operators bind more loosely than \<^verbatim>\<open><\<close>, is outside it.
\<close>

datatype alloca_primitive = builtin_alloca | alloca

datatype alloca_outcome =
  Assertion_failed
  | Null_pointer
  | Stack_block alloca_primitive nat  \<comment> \<open>the primitive called, and the bytes asked of it\<close>

definition OIIO_ALLOCA :: "build \<Rightarrow> nat \<Rightarrow> int \<Rightarrow> alloca_outcome" where
  "OIIO_ALLOCA b sizeof_type sz =
     (if \<not> NDEBUG b \<and> \<not> sz < 2 ^ 20 then Assertion_failed
      else if sz \<noteq> 0
        then Stack_block (if GNUC b then builtin_alloca else alloca)
               (to_size_t b (sz * int sizeof_type))
        else Null_pointer)"

text \<open>
  \<^verbatim>\<open>OIIO_ALLOCATE_STACK_OR_HEAP(var, T, size)\<close>, the macro next to it: it converts the count
  to \<^verbatim>\<open>size_t\<close>, compares the byte count \<^verbatim>\<open>var___size * sizeof(T)\<close>, a \<^verbatim>\<open>size_t\<close> product
  that wraps, with 64 KB, and uses the stack only up to that; otherwise \<^verbatim>\<open>new T[var___size]\<close>.
\<close>

datatype storage = On_stack alloca_outcome | On_heap nat

definition OIIO_ALLOCATE_STACK_OR_HEAP :: "build \<Rightarrow> nat \<Rightarrow> int \<Rightarrow> storage" where
  "OIIO_ALLOCATE_STACK_OR_HEAP b sizeof_T sz =
     (let var___size = to_size_t b sz
      in if to_size_t b (int var___size * int sizeof_T) \<le> 2 ^ 16
         then On_stack (OIIO_ALLOCA b sizeof_T (int var___size))
         else On_heap var___size)"

section \<open>Aligned allocation\<close>

type_synonym addr = nat  \<comment> \<open>an address; 0 is the null pointer\<close>

subsection \<open>The allocator\<close>

text \<open>
  \<^verbatim>\<open>platform.h\<close> declares \<^verbatim>\<open>aligned_malloc\<close> and \<^verbatim>\<open>aligned_free\<close> and defines neither. The
  typed helpers are therefore modelled over any allocator: a pair of functions on the
  allocator's own state \<open>'h\<close>.
\<close>

record 'h allocator =
  amalloc :: "nat \<Rightarrow> nat \<Rightarrow> 'h \<Rightarrow> addr \<times> 'h"   \<comment> \<open>size, alignment\<close>
  afree :: "addr \<Rightarrow> 'h \<Rightarrow> 'h"

text \<open>
  A block-granting arena stands for the platform's allocator where one is needed: \<open>brk\<close>
  is the lowest address never handed out, \<open>limit\<close> the end of the arena, \<open>live\<close> the
  blocks handed out and not yet released, each with its address and size.
\<close>

record arena =
  brk :: nat
  limit :: nat
  live :: "(addr \<times> nat) list"

definition round_up :: "nat \<Rightarrow> nat \<Rightarrow> nat" where
  "round_up a n = ((a + n - 1) div n) * n"

text \<open>
  Modelled from the spec: the body of \<^verbatim>\<open>aligned_malloc\<close> is not in \<^verbatim>\<open>platform.h\<close>. The
  specification: it "returns a pointer to at least \<open>size\<close> bytes whose address is a
  multiple of \<open>align\<close>, or a null/failure indicator if the underlying allocator cannot
  satisfy the request"; a request of size 0 "yields an allocator-defined empty-block
  result or null". The arena grants the lowest aligned address not yet handed out when
  the block fits below \<open>limit\<close>, and null otherwise.
\<close>

definition aligned_malloc :: "nat \<Rightarrow> nat \<Rightarrow> arena \<Rightarrow> addr \<times> arena" where
  "aligned_malloc sz align h =
     (let a = round_up (max 1 (brk h)) align
      in if a = 0 \<or> limit h < a + sz then (0, h)
         else (a, h\<lparr>brk := a + sz, live := (a, sz) # live h\<rparr>))"

text \<open>
  Modelled from the spec: the body of \<^verbatim>\<open>aligned_free\<close> is not in \<^verbatim>\<open>platform.h\<close>. The
  specification: it "releases a block previously returned by \<^verbatim>\<open>aligned_malloc\<close>. Passing a
  null pointer is a no-op."
\<close>

definition aligned_free :: "addr \<Rightarrow> arena \<Rightarrow> arena" where
  "aligned_free p h = (if p = 0 then h else h\<lparr>live := filter (\<lambda>blk. fst blk \<noteq> p) (live h)\<rparr>)"

definition arena_allocator :: "arena allocator" where
  "arena_allocator = \<lparr>amalloc = aligned_malloc, afree = aligned_free\<rparr>"

text \<open>The bytes from \<open>a\<close> to \<open>a + n\<close> lie inside one live block of the arena.\<close>

definition writable :: "arena \<Rightarrow> addr \<Rightarrow> nat \<Rightarrow> bool" where
  "writable h a n =
     list_ex (\<lambda>blk. fst blk \<le> a \<and> a + n \<le> fst blk + snd blk \<and> fst blk + snd blk \<le> limit h)
       (live h)"

subsection \<open>Typed helpers\<close>

text \<open>
  A type \<open>T\<close> as the templates see it: \<^verbatim>\<open>sizeof(T)\<close>, \<^verbatim>\<open>alignof(T)\<close>, its constructor and
  its destructor. A constructor either builds the object from the argument pack (\<open>Inr\<close>)
  or exits by an exception (\<open>Inl\<close>). A destructor either returns (\<open>None\<close>) or exits by an
  exception (\<open>Some\<close>); for a destructor that is \<^verbatim>\<open>noexcept\<close>, as destructors are unless declared
  otherwise, that exit is \<^verbatim>\<open>std::terminate\<close>, and in both cases the statement after the
  destructor call is not reached. Neither template has a \<^verbatim>\<open>try\<close> block, so an exception
  leaves the template at the point where it is thrown.

  The memory the helpers act on: the allocator's state, the objects alive at each
  address, and a trace of what was done, oldest first. The trace is there to state how
  often and in which order allocator, constructor and destructor are entered; no modelled
  function reads it.
\<close>

record ('a, 'o, 'x) ctype =
  sizeof :: nat
  alignof :: nat
  ctor :: "'a \<Rightarrow> 'x + 'o"
  dtor :: "'o \<Rightarrow> 'x option"

datatype 'a event =
  Malloc nat nat addr   \<comment> \<open>\<^verbatim>\<open>aligned_malloc(size, align)\<close> and the pointer it returned\<close>
  | Construct addr 'a   \<comment> \<open>\<open>T\<close>'s constructor, entered at the address on the arguments\<close>
  | Destruct addr       \<comment> \<open>\<open>T\<close>'s destructor, entered on the object at the address\<close>
  | Free addr           \<comment> \<open>\<^verbatim>\<open>aligned_free(ptr)\<close>\<close>

record ('h, 'a, 'o) mem =
  heap :: 'h
  objects :: "addr \<rightharpoonup> 'o"
  trace :: "'a event list"

datatype compile_error = Static_assert_failed

text \<open>
  \<^verbatim>\<open>aligned_new<T>(args...)\<close>. The \<^verbatim>\<open>static_assert\<close> is decided when the template is
  instantiated: where it fails there is no function to call, which is the outer \<open>Inl\<close>.
  A call returns the pointer (\<open>Inr\<close>) or is left by the constructor's exception (\<open>Inl\<close>),
  in the memory as it is at that point.
\<close>

definition aligned_new ::
  "build \<Rightarrow> 'h allocator \<Rightarrow> ('a, 'o, 'x) ctype \<Rightarrow> 'a \<Rightarrow> ('h, 'a, 'o) mem
     \<Rightarrow> compile_error + (('x + addr) \<times> ('h, 'a, 'o) mem)" where
  "aligned_new b A T args s =
     (if \<not> alignof T > alignof_voidp b then Inl Static_assert_failed
      else
        let (ptr, h') = amalloc A (sizeof T) (alignof T) (heap s);
            s1 = s\<lparr>heap := h', trace := trace s @ [Malloc (sizeof T) (alignof T) ptr]\<rparr>
        in Inr (if ptr \<noteq> 0
                then
                  let s2 = s1\<lparr>trace := trace s1 @ [Construct ptr args]\<rparr>
                  in (case ctor T args of
                        Inl e \<Rightarrow> (Inl e, s2)
                      | Inr obj \<Rightarrow> (Inr ptr, s2\<lparr>objects := (objects s2)(ptr \<mapsto> obj)\<rparr>))
                else (Inr 0, s1)))"

text \<open>
  The call \<^verbatim>\<open>t->~T()\<close>, given what lives at \<open>t\<close>. On a pointer to no object the call is
  undefined in C++; the model lets it return.
\<close>

definition run_dtor :: "('a, 'o, 'x) ctype \<Rightarrow> 'o option \<Rightarrow> 'x option" where
  "run_dtor T ob = (case ob of None \<Rightarrow> None | Some obj \<Rightarrow> dtor T obj)"

text \<open>
  \<^verbatim>\<open>aligned_delete<T>(t)\<close>: no \<^verbatim>\<open>static_assert\<close> here. The result says how the call ended:
  \<open>None\<close> when it returned, \<open>Some e\<close> when the destructor's exception \<open>e\<close> left it. The
  lifetime of the object ends when its destructor is entered.
\<close>

definition aligned_delete ::
  "'h allocator \<Rightarrow> ('a, 'o, 'x) ctype \<Rightarrow> addr \<Rightarrow> ('h, 'a, 'o) mem
     \<Rightarrow> 'x option \<times> ('h, 'a, 'o) mem" where
  "aligned_delete A T t s =
     (if t \<noteq> 0 then
        let s1 = s\<lparr>objects := (objects s)(t := None), trace := trace s @ [Destruct t]\<rparr>
        in (case run_dtor T (objects s t) of
              Some e \<Rightarrow> (Some e, s1)
            | None \<Rightarrow> (None, s1\<lparr>heap := afree A t (heap s1), trace := trace s1 @ [Free t]\<rparr>))
      else (None, s))"

text \<open>
  The composite \<^verbatim>\<open>aligned_delete(aligned_new<T>(args...))\<close>. When the constructor's
  exception leaves \<^verbatim>\<open>aligned_new\<close>, the argument of \<^verbatim>\<open>aligned_delete\<close> has no value and
  \<^verbatim>\<open>aligned_delete\<close> is not called.
\<close>

definition delete_of_new ::
  "build \<Rightarrow> 'h allocator \<Rightarrow> ('a, 'o, 'x) ctype \<Rightarrow> 'a \<Rightarrow> ('h, 'a, 'o) mem
     \<Rightarrow> compile_error + ('x option \<times> ('h, 'a, 'o) mem)" where
  "delete_of_new b A T args s =
     (case aligned_new b A T args s of
        Inl e \<Rightarrow> Inl e
      | Inr (Inl x, s') \<Rightarrow> Inr (Some x, s')
      | Inr (Inr p, s') \<Rightarrow> Inr (aligned_delete A T p s'))"

text \<open>Concrete inputs used to exercise the theorems below.\<close>

definition linux_x86_64 :: build where
  "linux_x86_64 =
     \<lparr>WIN32 = False, MSC_VER = False, GNUC = True, NDEBUG = False,
      M_X64 = False, M_IX86 = False, M_AMD64 = False, i386 = False, x86_64 = True,
      ORDER_LITTLE_ENDIAN = 1234, ORDER_BIG_ENDIAN = 4321, BYTE_ORDER = 1234,
      alignof_voidp = 8, size_t_bits = 64, asm_operand1_ebx = False\<rparr>"

definition linux_aarch64 :: build where
  "linux_aarch64 = linux_x86_64\<lparr>x86_64 := False\<rparr>"

definition linux_i386 :: build where
  "linux_i386 =
     linux_x86_64\<lparr>x86_64 := False, i386 := True, alignof_voidp := 4, size_t_bits := 32\<rparr>"

definition windows_msvc :: build where
  "windows_msvc =
     \<lparr>WIN32 = True, MSC_VER = True, GNUC = False, NDEBUG = False,
      M_X64 = True, M_IX86 = False, M_AMD64 = True, i386 = False, x86_64 = False,
      ORDER_LITTLE_ENDIAN = 0, ORDER_BIG_ENDIAN = 0, BYTE_ORDER = 0,
      alignof_voidp = 8, size_t_bits = 64, asm_operand1_ebx = False\<rparr>"

text \<open>
  A processor that reports AVX2 and AVX-512VL in leaf 7 and SSE2 and AVX in leaf 1, and
  nothing in any other leaf.
\<close>

definition sample_table :: "u32 \<Rightarrow> u32 \<Rightarrow> regs" where
  "sample_table leaf sub =
     (if leaf = 1 \<and> sub = 0 then \<lparr>eax = 0, ebx = 0, ecx = 0x10000000, edx = 0x04000000\<rparr>
      else if leaf = 7 \<and> sub = 0 then \<lparr>eax = 0, ebx = 0x80000020, ecx = 0, edx = 0\<rparr>
      else \<lparr>eax = 0, ebx = 0, ecx = 0, edx = 0\<rparr>)"

definition sample_machine :: machine where
  "sample_machine =
     \<lparr>hw = sample_table, rf = \<lparr>eax = 5, ebx = 6, ecx = 7, edx = 8\<rparr>, issued = []\<rparr>"

datatype exn = Bad_alloc | Runtime_error

text \<open>
  A 32-byte vector type aligned to 32, built from one argument; neither its constructor
  nor its destructor throws.
\<close>

definition vec8 :: "(nat, nat list, exn) ctype" where
  "vec8 =
     \<lparr>sizeof = 32, alignof = 32, ctor = (\<lambda>x. Inr (replicate 8 x)), dtor = (\<lambda>obj. None)\<rparr>"

text \<open>The same type with a constructor that throws, as one that allocates may.\<close>

definition vec8_ctor_throws :: "(nat, nat list, exn) ctype" where
  "vec8_ctor_throws = vec8\<lparr>ctor := (\<lambda>x. Inl Bad_alloc)\<rparr>"

text \<open>The same type with a destructor, declared \<^verbatim>\<open>noexcept(false)\<close>, that throws.\<close>

definition vec8_dtor_throws :: "(nat, nat list, exn) ctype" where
  "vec8_dtor_throws = vec8\<lparr>dtor := (\<lambda>obj. Some Runtime_error)\<rparr>"

text \<open>An 8-byte type aligned to 8: no more than a pointer on a 64-bit build.\<close>

definition int64 :: "(nat, nat, exn) ctype" where
  "int64 = \<lparr>sizeof = 8, alignof = 8, ctor = (\<lambda>x. Inr x), dtor = (\<lambda>obj. None)\<rparr>"

definition small_arena :: arena where
  "small_arena = \<lparr>brk = 100, limit = 4096, live = []\<rparr>"

definition full_arena :: arena where
  "full_arena = \<lparr>brk = 4090, limit = 4096, live = []\<rparr>"

definition fresh_mem :: "arena \<Rightarrow> (arena, 'a, 'o) mem" where
  "fresh_mem h = \<lparr>heap = h, objects = Map.empty, trace = []\<rparr>"

text \<open>A memory in which one \<open>vec8\<close> lives at 128, in its block from the arena.\<close>

definition mem_with_vec8 :: "(arena, nat, nat list) mem" where
  "mem_with_vec8 =
     \<lparr>heap = \<lparr>brk = 160, limit = 4096, live = [(128, 32)]\<rparr>,
      objects = [128 \<mapsto> replicate 8 7],
      trace = [Malloc 32 32 128, Construct 128 7]\<rparr>"

section \<open>Properties of the endianness tests\<close>

text \<open>
  Claim C9. \<^verbatim>\<open>littleendian()\<close> is true exactly when \<^verbatim>\<open>endian::native == endian::little\<close>
  and \<^verbatim>\<open>bigendian()\<close> exactly when \<^verbatim>\<open>endian::native == endian::big\<close>. Both are functions
  of the build configuration alone: they take no run-time argument and touch no state.
  On Windows \<^verbatim>\<open>littleendian()\<close> is true and \<^verbatim>\<open>bigendian()\<close> is false. At most one of the
  two is true on every build: on Windows always, elsewhere because the compiler gives
  \<^verbatim>\<open>__ORDER_LITTLE_ENDIAN__\<close> and \<^verbatim>\<open>__ORDER_BIG_ENDIAN__\<close> different values (1234 and 4321
  with gcc, clang and icc), which is the only fact about those macros that is used.
\<close>

theorem endian_tests:
  "(littleendian b \<longleftrightarrow> endian_native b = endian_little b)
   \<and> (bigendian b \<longleftrightarrow> endian_native b = endian_big b)
   \<and> (WIN32 b \<longrightarrow> littleendian b \<and> \<not> bigendian b)
   \<and> (WIN32 b \<or> ORDER_LITTLE_ENDIAN b \<noteq> ORDER_BIG_ENDIAN b
        \<longrightarrow> \<not> (littleendian b \<and> bigendian b))"
  by (auto simp: littleendian_def bigendian_def endian_native_def endian_little_def
      endian_big_def)

theorem endian_tests_witness:
  "WIN32 windows_msvc \<and> littleendian windows_msvc \<and> \<not> bigendian windows_msvc
   \<and> ORDER_LITTLE_ENDIAN linux_x86_64 \<noteq> ORDER_BIG_ENDIAN linux_x86_64
   \<and> littleendian linux_x86_64 \<and> \<not> bigendian linux_x86_64"
proof -
  have w: "WIN32 windows_msvc"
    by (simp add: windows_msvc_def)
  have d: "ORDER_LITTLE_ENDIAN linux_x86_64 \<noteq> ORDER_BIG_ENDIAN linux_x86_64"
    by (simp add: linux_x86_64_def)
  have l: "littleendian linux_x86_64"
    by (simp add: littleendian_def endian_native_def endian_little_def linux_x86_64_def)
  show ?thesis
    using w d l endian_tests [of windows_msvc] endian_tests [of linux_x86_64] by blast
qed

section \<open>Properties of the feature queries\<close>

subsection \<open>What \<^verbatim>\<open>cpuid\<close> returns\<close>

lemmas cpuid_unfold =
  cpuid_def cpuidex_def asm_cpuid_x86_64_def asm_cpuid_i386_def exec_cpuid_def
  load_inputs_def Let_def

lemma cpuid_x86_info:
  "is_x86 b \<Longrightarrow>
     fst (cpuid b m t e) = [eax (hw m t e), ebx (hw m t e), ecx (hw m t e), edx (hw m t e)]"
  by (simp add: cpuid_unfold)

lemma cpuid_x86_issued:
  "is_x86 b \<Longrightarrow> issued (snd (cpuid b m t e)) = issued m @ [(t, e)]"
  by (simp add: cpuid_unfold)

lemma cpuid_other:
  "\<not> is_x86 b \<Longrightarrow> cpuid b m t e = ([0, 0, 0, 0], m)"
  by (simp add: cpuid_def)

lemma cpuid_hw: "hw (snd (cpuid b m t e)) = hw m"
  by (simp add: cpuid_unfold)

text \<open>The mask test of the source, \<^verbatim>\<open>(x & (1<<n)) != 0\<close>, reads bit \<open>n\<close>.\<close>

lemma bit_as_mask_test: "bit (x::u32) n = (x AND push_bit n 1 \<noteq> 0)"
  by (simp add: bit_iff_and_push_bit_not_eq_0)

lemmas cpu_has_defs =
  cpu_has_sse2_def cpu_has_sse3_def cpu_has_ssse3_def cpu_has_fma_def cpu_has_sse41_def
  cpu_has_sse42_def cpu_has_popcnt_def cpu_has_avx_def cpu_has_f16c_def cpu_has_rdrand_def
  cpu_has_avx2_def cpu_has_avx512f_def cpu_has_avx512dq_def cpu_has_avx512ifma_def
  cpu_has_avx512pf_def cpu_has_avx512er_def cpu_has_avx512cd_def cpu_has_avx512bw_def
  cpu_has_avx512vl_def

lemma cpu_has_x86_result:
  "is_x86 b \<Longrightarrow> f \<noteq> AVX512ER \<Longrightarrow> fst (cpu_has f b m) = claimed_result f (hw m)"
  by (cases f)
    (simp_all add: cpu_has_defs split_beta cpuid_x86_info claimed_result_def bit_as_mask_test)

lemma cpu_has_x86_issued:
  "is_x86 b \<Longrightarrow> f \<noteq> AVX512ER \<Longrightarrow>
     issued (snd (cpu_has f b m)) = issued m @ [(claimed_leaf f, 0)]"
  by (cases f) (simp_all add: cpu_has_defs split_beta cpuid_x86_issued)

lemma cpu_has_other: "\<not> is_x86 b \<Longrightarrow> cpu_has f b m = (False, m)"
  by (cases f) (simp_all add: cpu_has_defs cpuid_other)

lemma cpu_has_hw: "hw (snd (cpu_has f b m)) = hw m"
  by (cases f) (simp_all add: cpu_has_defs split_beta cpuid_hw)

lemma cpu_has_result:
  "fst (cpu_has f b m) = (is_x86 b \<and> f \<noteq> AVX512ER \<and> claimed_result f (hw m))"
proof (cases "is_x86 b")
  case True
  then show ?thesis
    by (cases "f = AVX512ER") (simp_all add: cpu_has_x86_result cpu_has_avx512er_def)
next
  case False
  then show ?thesis
    by (simp add: cpu_has_other)
qed

lemma run_queries_hw: "hw (run_queries fs b m) = hw m"
  by (induction fs arbitrary: m) (simp_all add: cpu_has_hw)

subsection \<open>The claims\<close>

text \<open>
  Claim C1. On an x86 or x86-64 build, every query other than \<^verbatim>\<open>cpu_has_avx512er\<close> executes
  the \<^verbatim>\<open>cpuid\<close> instruction once, with leaf 1 and sub-leaf 0 for sse2, sse3, ssse3, fma,
  sse41, sse42, popcnt, avx, f16c and rdrand, and with leaf 7 and sub-leaf 0 for avx2 and
  the avx512 queries, and returns true exactly when its one designated bit of the output
  registers is set: bit 26 of \<open>edx\<close> for sse2, a bit of \<open>ecx\<close> for the other leaf-1
  queries, a bit of \<open>ebx\<close> for the leaf-7 queries, bit 31 for avx512vl (the mask
  \<^verbatim>\<open>0x80000000\<close>). The table is \<open>claimed_leaf\<close>, \<open>claimed_register\<close>, \<open>claimed_bit\<close>. This holds
  on each of the three x86 texts of \<^verbatim>\<open>cpuid\<close> (the MSVC intrinsic and the two \<^verbatim>\<open>asm\<close>
  statements) and whatever the registers held before.
\<close>

theorem cpu_has_reads_designated_bit:
  assumes "is_x86 b" and "f \<noteq> AVX512ER"
  shows "fst (cpu_has f b m) = bit (claimed_register f (hw m (claimed_leaf f) 0)) (claimed_bit f)
    \<and> issued (snd (cpu_has f b m)) = issued m @ [(claimed_leaf f, 0)]
    \<and> fst (cpu_has_sse2 b m) = bit (edx (hw m 1 0)) 26
    \<and> fst (cpu_has_avx512vl b m) = bit (ebx (hw m 7 0)) 31"
proof -
  have "fst (cpu_has f b m) = bit (claimed_register f (hw m (claimed_leaf f) 0)) (claimed_bit f)"
    using assms cpu_has_x86_result [of b f m] by (simp add: claimed_result_def)
  moreover have "issued (snd (cpu_has f b m)) = issued m @ [(claimed_leaf f, 0)]"
    using assms by (rule cpu_has_x86_issued)
  moreover have "fst (cpu_has_sse2 b m) = bit (edx (hw m 1 0)) 26"
    using assms(1) cpu_has_x86_result [of b SSE2 m] by (simp add: claimed_result_def)
  moreover have "fst (cpu_has_avx512vl b m) = bit (ebx (hw m 7 0)) 31"
    using assms(1) cpu_has_x86_result [of b AVX512VL m] by (simp add: claimed_result_def)
  ultimately show ?thesis
    by blast
qed

theorem cpu_has_reads_designated_bit_witness:
  "is_x86 linux_i386 \<and> AVX512VL \<noteq> AVX512ER
   \<and> fst (cpu_has AVX512VL linux_i386 sample_machine)
   \<and> issued (snd (cpu_has AVX512VL linux_i386 sample_machine)) = [(7, 0)]
   \<and> fst (cpu_has_sse2 linux_i386 sample_machine)"
proof -
  have x: "is_x86 linux_i386"
    by (simp add: is_x86_def linux_i386_def)
  have n: "AVX512VL \<noteq> AVX512ER"
    by simp
  show ?thesis
    using x cpu_has_reads_designated_bit [OF x n, of sample_machine]
    by (simp add: sample_machine_def sample_table_def)
qed

text \<open>
  Claim C2. On a build for any architecture outside x86 and x86-64, \<^verbatim>\<open>cpuid\<close> leaves zero
  in all four slots whatever leaf and sub-leaf it is given (and executes nothing), so
  every query returns false. \<^verbatim>\<open>cpu_has_avx512er()\<close> returns false on every build, x86
  included, and leaves the machine as it was: it executes no \<^verbatim>\<open>cpuid\<close>.
\<close>

theorem cpu_has_off_x86:
  "(\<not> is_x86 b \<longrightarrow>
      cpuid b m infoType extra = ([0, 0, 0, 0], m) \<and> cpu_has f b m = (False, m))
   \<and> cpu_has_avx512er b m = (False, m)"
  by (simp add: cpuid_other cpu_has_other cpu_has_avx512er_def)

theorem cpu_has_off_x86_witness:
  "\<not> is_x86 linux_aarch64
   \<and> cpuid linux_aarch64 sample_machine 7 0 = ([0, 0, 0, 0], sample_machine)
   \<and> cpu_has AVX2 linux_aarch64 sample_machine = (False, sample_machine)
   \<and> cpu_has_avx512er linux_x86_64 sample_machine = (False, sample_machine)"
proof -
  have x: "\<not> is_x86 linux_aarch64"
    by (simp add: is_x86_def linux_aarch64_def linux_x86_64_def)
  show ?thesis
    using x cpu_has_off_x86 [of linux_aarch64 sample_machine 7 0 AVX2]
      cpu_has_off_x86 [of linux_x86_64 sample_machine 7 0 AVX2]
    by blast
qed

text \<open>
  Claim C7. A query is deterministic: its result is a function of the build and of the
  processor's capability table alone, so on an unchanged table two calls of the same query
  return the same boolean, whatever the registers hold and whatever was logged. Its result
  does not depend on the queries called before it: after any sequence of queries it
  returns what it returns when called first. No query writes anything another one reads.
\<close>

theorem cpu_has_deterministic:
  "(hw m' = hw m \<longrightarrow> fst (cpu_has f b m') = fst (cpu_has f b m))
   \<and> fst (cpu_has f b (snd (cpu_has f b m))) = fst (cpu_has f b m)
   \<and> fst (cpu_has f b (run_queries fs b m)) = fst (cpu_has f b m)"
  by (simp add: cpu_has_result cpu_has_hw run_queries_hw)

theorem cpu_has_deterministic_witness:
  "hw (sample_machine\<lparr>rf := \<lparr>eax = 0, ebx = 0, ecx = 0, edx = 0\<rparr>\<rparr>) = hw sample_machine
   \<and> fst (cpu_has AVX2 linux_x86_64 (sample_machine\<lparr>rf := \<lparr>eax = 0, ebx = 0, ecx = 0, edx = 0\<rparr>\<rparr>))
   \<and> fst (cpu_has AVX2 linux_x86_64 sample_machine)
   \<and> fst (cpu_has AVX2 linux_x86_64 (snd (cpu_has AVX2 linux_x86_64 sample_machine)))
   \<and> fst (cpu_has AVX2 linux_x86_64 (run_queries [SSE3, AVX512ER, AVX512F] linux_x86_64 sample_machine))"
proof -
  let ?m' = "sample_machine\<lparr>rf := \<lparr>eax = 0, ebx = 0, ecx = 0, edx = 0\<rparr>\<rparr>"
  have h: "hw ?m' = hw sample_machine"
    by simp
  have a: "fst (cpu_has AVX2 linux_x86_64 sample_machine)"
    by (simp add: cpu_has_avx2_def cpuid_unfold is_x86_def linux_x86_64_def sample_machine_def
        sample_table_def)
  show ?thesis
    using h a
      cpu_has_deterministic [of ?m' sample_machine AVX2 linux_x86_64 "[SSE3, AVX512ER, AVX512F]"]
    by simp
qed

section \<open>Properties of the stack allocation macro\<close>

lemma OIIO_ALLOCA_zero: "OIIO_ALLOCA b sizeof_type 0 = Null_pointer"
  by (simp add: OIIO_ALLOCA_def)

lemma OIIO_ALLOCA_count_limit:
  "\<not> NDEBUG b \<Longrightarrow> 2 ^ 20 \<le> sz \<Longrightarrow> OIIO_ALLOCA b sizeof_type sz = Assertion_failed"
  by (simp add: OIIO_ALLOCA_def)

lemma OIIO_ALLOCA_below_limit:
  "sz \<noteq> 0 \<Longrightarrow> sz < 2 ^ 20 \<Longrightarrow>
     OIIO_ALLOCA b sizeof_type sz
       = Stack_block (if GNUC b then builtin_alloca else alloca)
           (to_size_t b (sz * int sizeof_type))"
  by (simp add: OIIO_ALLOCA_def)

text \<open>
  Claim C10. \<^verbatim>\<open>OIIO_ALLOCA(type, size)\<close> with a size of 0 is the null pointer and calls no
  stack primitive (\<open>OIIO_ALLOCA_zero\<close>), and the assertion is evaluated before anything
  else. But the assertion bounds the element count \<^verbatim>\<open>size\<close>, not the bytes
  \<^verbatim>\<open>size * sizeof(type)\<close> that are requested from the stack: in a checked build,
  \<^verbatim>\<open>OIIO_ALLOCA(float, 262144)\<close> passes the assertion and takes \<open>2 ^ 20\<close> bytes, one megabyte,
  from the stack, and a count just below \<open>2 ^ 20\<close> takes almost four. The comment above
  the macro says that a debug build asserts for allocations of 1 MB or more, and the
  macro after it, \<^verbatim>\<open>OIIO_ALLOCATE_STACK_OR_HEAP\<close>, does compare the byte count: it sends the
  same request to the heap.
\<close>

theorem OIIO_ALLOCA_megabyte_not_caught:
  "\<not> NDEBUG linux_x86_64
   \<and> OIIO_ALLOCA linux_x86_64 4 262144 = Stack_block builtin_alloca (2 ^ 20)
   \<and> OIIO_ALLOCA linux_x86_64 4 1048575 = Stack_block builtin_alloca 4194300
   \<and> OIIO_ALLOCATE_STACK_OR_HEAP linux_x86_64 4 262144 = On_heap 262144"
  by (simp add: OIIO_ALLOCA_def OIIO_ALLOCATE_STACK_OR_HEAP_def to_size_t_def linux_x86_64_def)

section \<open>Properties of the aligned allocation helpers\<close>

subsection \<open>The helpers as equations\<close>

lemma aligned_new_null:
  assumes "alignof T > alignof_voidp b"
    and "amalloc A (sizeof T) (alignof T) (heap s) = (0, h')"
  shows "aligned_new b A T args s =
     Inr (Inr 0, s\<lparr>heap := h', trace := trace s @ [Malloc (sizeof T) (alignof T) 0]\<rparr>)"
  using assms by (simp add: aligned_new_def)

lemma aligned_new_constructed:
  assumes "alignof T > alignof_voidp b"
    and "amalloc A (sizeof T) (alignof T) (heap s) = (p, h')"
    and "p \<noteq> 0" and "ctor T args = Inr obj"
  shows "aligned_new b A T args s =
     Inr (Inr p, s\<lparr>heap := h', objects := (objects s)(p \<mapsto> obj),
                    trace := trace s @ [Malloc (sizeof T) (alignof T) p, Construct p args]\<rparr>)"
  using assms by (simp add: aligned_new_def)

lemma aligned_new_ctor_throws:
  assumes "alignof T > alignof_voidp b"
    and "amalloc A (sizeof T) (alignof T) (heap s) = (p, h')"
    and "p \<noteq> 0" and "ctor T args = Inl e"
  shows "aligned_new b A T args s =
     Inr (Inl e, s\<lparr>heap := h',
                    trace := trace s @ [Malloc (sizeof T) (alignof T) p, Construct p args]\<rparr>)"
  using assms by (simp add: aligned_new_def)

lemma aligned_new_trace:
  assumes "alignof T > alignof_voidp b"
    and "amalloc A (sizeof T) (alignof T) (heap s) = (p, h')"
    and "p \<noteq> 0"
  shows "trace (snd (projr (aligned_new b A T args s)))
     = trace s @ [Malloc (sizeof T) (alignof T) p, Construct p args]"
  using assms by (cases "ctor T args") (simp_all add: aligned_new_def)

lemma aligned_delete_null: "aligned_delete A T 0 s = (None, s)"
  by (simp add: aligned_delete_def)

lemma aligned_delete_returns:
  assumes "t \<noteq> 0" and "run_dtor T (objects s t) = None"
  shows "aligned_delete A T t s =
     (None, s\<lparr>heap := afree A t (heap s), objects := (objects s)(t := None),
              trace := trace s @ [Destruct t, Free t]\<rparr>)"
  using assms by (simp add: aligned_delete_def)

lemma aligned_delete_dtor_throws:
  assumes "t \<noteq> 0" and "run_dtor T (objects s t) = Some e"
  shows "aligned_delete A T t s =
     (Some e, s\<lparr>objects := (objects s)(t := None), trace := trace s @ [Destruct t]\<rparr>)"
  using assms by (simp add: aligned_delete_def)

lemma round_up_multiple: "round_up a n mod n = 0"
  by (simp add: round_up_def)

lemma malloc_small_arena:
  "aligned_malloc 32 32 small_arena = (128, \<lparr>brk = 160, limit = 4096, live = [(128, 32)]\<rparr>)"
  by (simp add: aligned_malloc_def small_arena_def round_up_def)

lemma malloc_full_arena: "aligned_malloc 32 32 full_arena = (0, full_arena)"
  by (simp add: aligned_malloc_def full_arena_def round_up_def)

lemma vec8_over_aligned: "alignof vec8 > alignof_voidp linux_x86_64"
  by (simp add: vec8_def linux_x86_64_def)

lemmas sample_types = vec8_def vec8_ctor_throws_def vec8_dtor_throws_def

lemma amalloc_small:
  "sizeof T = 32 \<Longrightarrow> alignof T = 32 \<Longrightarrow>
     amalloc arena_allocator (sizeof T) (alignof T) (heap (fresh_mem small_arena))
       = (128, \<lparr>brk = 160, limit = 4096, live = [(128, 32)]\<rparr>)"
  by (simp add: arena_allocator_def fresh_mem_def malloc_small_arena)

lemma amalloc_full:
  "sizeof T = 32 \<Longrightarrow> alignof T = 32 \<Longrightarrow>
     amalloc arena_allocator (sizeof T) (alignof T) (heap (fresh_mem full_arena))
       = (0, full_arena)"
  by (simp add: arena_allocator_def fresh_mem_def malloc_full_arena)

subsection \<open>The claims\<close>

text \<open>
  Claim C8. For an alignment that is a power of two and a size above 0,
  \<^verbatim>\<open>aligned_malloc(size, align)\<close> returns either null, and then changes nothing, or an address
  \<open>a\<close> that is not null, is a multiple of \<open>align\<close> and heads a live block of at least
  \<open>size\<close> bytes inside the arena. It always returns: running out of room is the null
  result, not a way of not returning. (The allocator here is the arena modelled from the
  specification; the source gives only the declaration.)
\<close>

theorem aligned_malloc_aligned_block:
  assumes "align = 2 ^ k" and "0 < sz" and "aligned_malloc sz align h = (a, h')"
  shows "(a = 0 \<and> h' = h) \<or> (a \<noteq> 0 \<and> a mod align = 0 \<and> writable h' a sz)"
  using assms(3)
  by (auto simp: aligned_malloc_def Let_def writable_def round_up_multiple split: if_splits)

theorem aligned_malloc_aligned_block_witness:
  "(32::nat) = 2 ^ 5 \<and> (0::nat) < 32
   \<and> aligned_malloc 32 32 small_arena = (128, \<lparr>brk = 160, limit = 4096, live = [(128, 32)]\<rparr>)
   \<and> (128::nat) mod 32 = 0
   \<and> writable \<lparr>brk = 160, limit = 4096, live = [(128, 32)]\<rparr> 128 32
   \<and> aligned_malloc 32 32 full_arena = (0, full_arena)"
proof -
  have p: "(32::nat) = 2 ^ 5" and z: "(0::nat) < 32"
    by simp_all
  show ?thesis
    using p z malloc_full_arena
      aligned_malloc_aligned_block [OF p z malloc_small_arena]
    by (simp add: malloc_small_arena)
qed

text \<open>
  Claim C3, as the source has it. For every type \<open>T\<close> for which \<^verbatim>\<open>aligned_new<T>\<close> is
  instantiated and every argument list, \<^verbatim>\<open>aligned_new<T>(args...)\<close> first asks
  \<^verbatim>\<open>aligned_malloc\<close> for \<^verbatim>\<open>sizeof(T)\<close> bytes aligned to \<^verbatim>\<open>alignof(T)\<close>. If that returns null,
  \<^verbatim>\<open>aligned_new\<close> returns null and no constructor of \<open>T\<close> is entered: nothing but the
  allocator's state and the one \<open>Malloc\<close> entry changes. If it returns a pointer \<open>p\<close> that
  is not null, \<^verbatim>\<open>aligned_new\<close> enters the constructor once, at \<open>p\<close>, on the forwarded
  arguments, and does nothing else; and when the constructor returns, \<^verbatim>\<open>aligned_new\<close>
  returns \<open>p\<close>, where the constructed object now lives. This holds for any allocator.

  The claim as it was stated promised the pointer for every \<open>T\<close>. A constructor may exit
  by an exception; then no object is constructed and \<^verbatim>\<open>aligned_new\<close> does not return the
  pointer: the exception leaves it, as the theorem after the next one shows on a type
  whose constructor throws.
\<close>

theorem aligned_new_allocates_then_constructs:
  assumes "alignof T > alignof_voidp b"
    and "amalloc A (sizeof T) (alignof T) (heap s) = (p, h')"
  shows "(p = 0 \<longrightarrow>
            aligned_new b A T args s =
              Inr (Inr 0, s\<lparr>heap := h', trace := trace s @ [Malloc (sizeof T) (alignof T) 0]\<rparr>))
       \<and> (p \<noteq> 0 \<longrightarrow>
            trace (snd (projr (aligned_new b A T args s)))
              = trace s @ [Malloc (sizeof T) (alignof T) p, Construct p args])
       \<and> (p \<noteq> 0 \<and> ctor T args = Inr obj \<longrightarrow>
            aligned_new b A T args s =
              Inr (Inr p, s\<lparr>heap := h', objects := (objects s)(p \<mapsto> obj),
                             trace := trace s @ [Malloc (sizeof T) (alignof T) p,
                                                 Construct p args]\<rparr>))"
proof (intro conjI impI)
  assume "p = 0"
  with assms show "aligned_new b A T args s =
      Inr (Inr 0, s\<lparr>heap := h', trace := trace s @ [Malloc (sizeof T) (alignof T) 0]\<rparr>)"
    by (simp add: aligned_new_null)
next
  assume "p \<noteq> 0"
  with assms show "trace (snd (projr (aligned_new b A T args s)))
      = trace s @ [Malloc (sizeof T) (alignof T) p, Construct p args]"
    by (rule aligned_new_trace)
next
  assume "p \<noteq> 0 \<and> ctor T args = Inr obj"
  with assms show "aligned_new b A T args s =
      Inr (Inr p, s\<lparr>heap := h', objects := (objects s)(p \<mapsto> obj),
                     trace := trace s @ [Malloc (sizeof T) (alignof T) p, Construct p args]\<rparr>)"
    by (simp add: aligned_new_constructed)
qed

theorem aligned_new_allocates_then_constructs_witness:
  "alignof vec8 > alignof_voidp linux_x86_64
   \<and> (128::nat) \<noteq> 0 \<and> ctor vec8 7 = Inr (replicate 8 7)
   \<and> fst (projr (aligned_new linux_x86_64 arena_allocator vec8 7 (fresh_mem small_arena)))
       = Inr 128
   \<and> objects (snd (projr (aligned_new linux_x86_64 arena_allocator vec8 7
         (fresh_mem small_arena)))) 128 = Some (replicate 8 7)
   \<and> trace (snd (projr (aligned_new linux_x86_64 arena_allocator vec8 7
         (fresh_mem small_arena)))) = [Malloc 32 32 128, Construct 128 7]
   \<and> fst (projr (aligned_new linux_x86_64 arena_allocator vec8 7 (fresh_mem full_arena)))
       = Inr 0
   \<and> trace (snd (projr (aligned_new linux_x86_64 arena_allocator vec8 7
         (fresh_mem full_arena)))) = [Malloc 32 32 0]"
proof -
  have c: "ctor vec8 7 = Inr (replicate 8 7)"
    by (simp add: vec8_def)
  have a: "amalloc arena_allocator (sizeof vec8) (alignof vec8) (heap (fresh_mem small_arena))
      = (128, \<lparr>brk = 160, limit = 4096, live = [(128, 32)]\<rparr>)"
    by (rule amalloc_small) (simp_all add: vec8_def)
  have f: "amalloc arena_allocator (sizeof vec8) (alignof vec8) (heap (fresh_mem full_arena))
      = (0, full_arena)"
    by (rule amalloc_full) (simp_all add: vec8_def)
  show ?thesis
    using vec8_over_aligned c
      aligned_new_allocates_then_constructs [OF vec8_over_aligned a, of 7 "replicate 8 7"]
      aligned_new_allocates_then_constructs [OF vec8_over_aligned f, of 7 "replicate 8 7"]
    by (simp add: vec8_def fresh_mem_def)
qed

theorem aligned_new_ctor_throws_counterexample:
  "alignof vec8_ctor_throws > alignof_voidp linux_x86_64
   \<and> fst (amalloc arena_allocator (sizeof vec8_ctor_throws) (alignof vec8_ctor_throws)
        (heap (fresh_mem small_arena))) = 128
   \<and> fst (projr (aligned_new linux_x86_64 arena_allocator vec8_ctor_throws 7
        (fresh_mem small_arena))) = Inl Bad_alloc
   \<and> fst (projr (aligned_new linux_x86_64 arena_allocator vec8_ctor_throws 7
        (fresh_mem small_arena))) \<noteq> Inr 128
   \<and> objects (snd (projr (aligned_new linux_x86_64 arena_allocator vec8_ctor_throws 7
        (fresh_mem small_arena)))) 128 = None"
  by (simp add: aligned_new_def sample_types linux_x86_64_def arena_allocator_def fresh_mem_def
      malloc_small_arena)

text \<open>
  Claim C4, as the source has it. For every over-aligned type \<open>T\<close> and constructor
  arguments, when \<^verbatim>\<open>aligned_malloc\<close> succeeds and \<open>T\<close>'s constructor and destructor return,
  the composite \<^verbatim>\<open>aligned_delete(aligned_new<T>(args...))\<close> does four things in this order
  and nothing else: the one allocation, the constructor once, the destructor once, and
  \<^verbatim>\<open>aligned_free\<close> once on the block that was allocated; so the block is neither leaked nor
  freed twice. When \<^verbatim>\<open>aligned_malloc\<close> fails, neither constructor nor destructor is entered
  and nothing is given to \<^verbatim>\<open>aligned_free\<close>. This holds for any allocator.

  The claim as it was stated asked only that \<^verbatim>\<open>aligned_malloc\<close> succeed. When the
  constructor exits by an exception, the destructor is never entered and the block is
  never freed; when the destructor does, the block is never freed. The theorem after the
  next one shows both, on a type whose constructor throws and on one whose destructor
  throws.
\<close>

theorem delete_of_new_roundtrip:
  assumes "alignof T > alignof_voidp b"
    and "amalloc A (sizeof T) (alignof T) (heap s) = (p, h')"
  shows "(p \<noteq> 0 \<and> ctor T args = Inr obj \<and> dtor T obj = None \<longrightarrow>
            delete_of_new b A T args s =
              Inr (None,
                   s\<lparr>heap := afree A p h', objects := (objects s)(p := None),
                     trace := trace s @ [Malloc (sizeof T) (alignof T) p, Construct p args,
                                         Destruct p, Free p]\<rparr>))
       \<and> (p = 0 \<longrightarrow>
            delete_of_new b A T args s =
              Inr (None,
                   s\<lparr>heap := h', trace := trace s @ [Malloc (sizeof T) (alignof T) 0]\<rparr>))"
proof (intro conjI impI)
  assume h: "p \<noteq> 0 \<and> ctor T args = Inr obj \<and> dtor T obj = None"
  then have "aligned_new b A T args s =
      Inr (Inr p, s\<lparr>heap := h', objects := (objects s)(p \<mapsto> obj),
                     trace := trace s @ [Malloc (sizeof T) (alignof T) p, Construct p args]\<rparr>)"
    using assms by (simp add: aligned_new_constructed)
  with h show "delete_of_new b A T args s =
      Inr (None,
           s\<lparr>heap := afree A p h', objects := (objects s)(p := None),
             trace := trace s @ [Malloc (sizeof T) (alignof T) p, Construct p args,
                                 Destruct p, Free p]\<rparr>)"
    by (simp add: delete_of_new_def aligned_delete_def run_dtor_def)
next
  assume "p = 0"
  with assms show "delete_of_new b A T args s =
      Inr (None, s\<lparr>heap := h', trace := trace s @ [Malloc (sizeof T) (alignof T) 0]\<rparr>)"
    by (simp add: delete_of_new_def aligned_new_null aligned_delete_null)
qed

theorem delete_of_new_roundtrip_witness:
  "alignof vec8 > alignof_voidp linux_x86_64
   \<and> (128::nat) \<noteq> 0 \<and> ctor vec8 7 = Inr (replicate 8 7) \<and> dtor vec8 (replicate 8 7) = None
   \<and> fst (projr (delete_of_new linux_x86_64 arena_allocator vec8 7 (fresh_mem small_arena)))
       = None
   \<and> trace (snd (projr (delete_of_new linux_x86_64 arena_allocator vec8 7
         (fresh_mem small_arena))))
       = [Malloc 32 32 128, Construct 128 7, Destruct 128, Free 128]
   \<and> live (heap (snd (projr (delete_of_new linux_x86_64 arena_allocator vec8 7
         (fresh_mem small_arena))))) = []
   \<and> trace (snd (projr (delete_of_new linux_x86_64 arena_allocator vec8 7
         (fresh_mem full_arena)))) = [Malloc 32 32 0]"
proof -
  have c: "ctor vec8 7 = Inr (replicate 8 7)" and d: "dtor vec8 (replicate 8 7) = None"
    by (simp_all add: vec8_def)
  have a: "amalloc arena_allocator (sizeof vec8) (alignof vec8) (heap (fresh_mem small_arena))
      = (128, \<lparr>brk = 160, limit = 4096, live = [(128, 32)]\<rparr>)"
    by (rule amalloc_small) (simp_all add: vec8_def)
  have f: "amalloc arena_allocator (sizeof vec8) (alignof vec8) (heap (fresh_mem full_arena))
      = (0, full_arena)"
    by (rule amalloc_full) (simp_all add: vec8_def)
  show ?thesis
    using vec8_over_aligned c d
      delete_of_new_roundtrip [OF vec8_over_aligned a, of 7 "replicate 8 7"]
      delete_of_new_roundtrip [OF vec8_over_aligned f, of 7 "replicate 8 7"]
    by (simp add: vec8_def fresh_mem_def arena_allocator_def aligned_free_def)
qed

theorem delete_of_new_exception_counterexample:
  "alignof vec8_ctor_throws > alignof_voidp linux_x86_64
   \<and> fst (amalloc arena_allocator (sizeof vec8_ctor_throws) (alignof vec8_ctor_throws)
        (heap (fresh_mem small_arena))) = 128
   \<and> fst (projr (delete_of_new linux_x86_64 arena_allocator vec8_ctor_throws 7
        (fresh_mem small_arena))) = Some Bad_alloc
   \<and> trace (snd (projr (delete_of_new linux_x86_64 arena_allocator vec8_ctor_throws 7
        (fresh_mem small_arena)))) = [Malloc 32 32 128, Construct 128 7]
   \<and> live (heap (snd (projr (delete_of_new linux_x86_64 arena_allocator vec8_ctor_throws 7
        (fresh_mem small_arena))))) = [(128, 32)]
   \<and> fst (projr (delete_of_new linux_x86_64 arena_allocator vec8_dtor_throws 7
        (fresh_mem small_arena))) = Some Runtime_error
   \<and> trace (snd (projr (delete_of_new linux_x86_64 arena_allocator vec8_dtor_throws 7
        (fresh_mem small_arena)))) = [Malloc 32 32 128, Construct 128 7, Destruct 128]
   \<and> live (heap (snd (projr (delete_of_new linux_x86_64 arena_allocator vec8_dtor_throws 7
        (fresh_mem small_arena))))) = [(128, 32)]"
  by (simp add: delete_of_new_def aligned_new_def aligned_delete_def run_dtor_def sample_types
      linux_x86_64_def arena_allocator_def fresh_mem_def malloc_small_arena)

text \<open>
  Claim C5, as the source has it. For every type \<open>T\<close>, \<^verbatim>\<open>aligned_delete<T>(ptr)\<close> with a
  pointer that is not null enters \<open>T\<close>'s destructor on the object at \<open>ptr\<close> first and,
  when the destructor returns, gives \<open>ptr\<close> to \<^verbatim>\<open>aligned_free\<close>, and does nothing else. With
  the null pointer it does nothing at all, neither destructor nor deallocation, so calling
  it again on a pointer that is already null frees nothing twice.

  The claim as it was stated promised \<^verbatim>\<open>aligned_free\<close> after the destructor for every \<open>T\<close>.
  A destructor may exit by an exception; then \<^verbatim>\<open>aligned_free\<close> is not reached, as the
  theorem after the next one shows on a type whose destructor throws.
\<close>

theorem aligned_delete_destroys_then_frees:
  "(t \<noteq> 0 \<longrightarrow> (\<exists>rest. trace (snd (aligned_delete A T t s)) = trace s @ Destruct t # rest))
   \<and> (t \<noteq> 0 \<and> run_dtor T (objects s t) = None \<longrightarrow>
        aligned_delete A T t s =
          (None, s\<lparr>heap := afree A t (heap s), objects := (objects s)(t := None),
                   trace := trace s @ [Destruct t, Free t]\<rparr>))
   \<and> aligned_delete A T 0 s = (None, s)
   \<and> snd (aligned_delete A T 0 (snd (aligned_delete A T 0 s))) = s"
  by (cases "run_dtor T (objects s t)") (simp_all add: aligned_delete_def)

theorem aligned_delete_destroys_then_frees_witness:
  "(128::nat) \<noteq> 0 \<and> run_dtor vec8 (objects mem_with_vec8 128) = None
   \<and> fst (aligned_delete arena_allocator vec8 128 mem_with_vec8) = None
   \<and> trace (snd (aligned_delete arena_allocator vec8 128 mem_with_vec8))
       = [Malloc 32 32 128, Construct 128 7, Destruct 128, Free 128]
   \<and> live (heap (snd (aligned_delete arena_allocator vec8 128 mem_with_vec8))) = []
   \<and> objects (snd (aligned_delete arena_allocator vec8 128 mem_with_vec8)) 128 = None
   \<and> aligned_delete arena_allocator vec8 0 mem_with_vec8 = (None, mem_with_vec8)"
proof -
  have n: "(128::nat) \<noteq> 0"
    by simp
  have r: "run_dtor vec8 (objects mem_with_vec8 128) = None"
    by (simp add: run_dtor_def vec8_def mem_with_vec8_def)
  show ?thesis
    using n r aligned_delete_destroys_then_frees [of 128 arena_allocator vec8 mem_with_vec8]
    by (simp add: mem_with_vec8_def arena_allocator_def aligned_free_def)
qed

theorem aligned_delete_dtor_throws_counterexample:
  "(128::nat) \<noteq> 0
   \<and> objects mem_with_vec8 128 = Some (replicate 8 7)
   \<and> fst (aligned_delete arena_allocator vec8_dtor_throws 128 mem_with_vec8)
       = Some Runtime_error
   \<and> trace (snd (aligned_delete arena_allocator vec8_dtor_throws 128 mem_with_vec8))
       = [Malloc 32 32 128, Construct 128 7, Destruct 128]
   \<and> live (heap (snd (aligned_delete arena_allocator vec8_dtor_throws 128 mem_with_vec8)))
       = [(128, 32)]"
  by (simp add: aligned_delete_def run_dtor_def sample_types mem_with_vec8_def)

text \<open>
  Claim C6. Instantiating \<^verbatim>\<open>aligned_new<T>\<close> for a type whose alignment does not exceed that
  of \<^verbatim>\<open>void*\<close> is rejected by the static assertion, before any allocation, and every type
  whose alignment exceeds it passes the assertion. An alignment equal to that of \<^verbatim>\<open>void*\<close>
  is rejected.
\<close>

theorem aligned_new_static_assert:
  "(alignof T \<le> alignof_voidp b \<longrightarrow> aligned_new b A T args s = Inl Static_assert_failed)
   \<and> (alignof T > alignof_voidp b \<longrightarrow> (\<exists>r. aligned_new b A T args s = Inr r))
   \<and> (alignof T = alignof_voidp b \<longrightarrow> aligned_new b A T args s = Inl Static_assert_failed)"
  by (cases "amalloc A (sizeof T) (alignof T) (heap s)") (simp add: aligned_new_def Let_def)

theorem aligned_new_static_assert_witness:
  "alignof int64 = alignof_voidp linux_x86_64
   \<and> aligned_new linux_x86_64 arena_allocator int64 7 (fresh_mem small_arena)
       = Inl Static_assert_failed
   \<and> alignof vec8 > alignof_voidp linux_x86_64
   \<and> (\<exists>r. aligned_new linux_x86_64 arena_allocator vec8 7 (fresh_mem small_arena) = Inr r)"
proof -
  have e: "alignof int64 = alignof_voidp linux_x86_64"
    by (simp add: int64_def linux_x86_64_def)
  show ?thesis
    using e vec8_over_aligned
      aligned_new_static_assert [of int64 linux_x86_64 arena_allocator 7 "fresh_mem small_arena"]
      aligned_new_static_assert [of vec8 linux_x86_64 arena_allocator 7 "fresh_mem small_arena"]
    by simp
qed

end
